theory Spec2Isabelle
  imports Main "HOL-Library.Sublist" "HOL-Library.Word"
begin

section \<open>Container discovery of nri-flex (internal/discovery/discovery.go)\<close>

text \<open>
  A shallow embedding of the discovery package. Go strings are byte lists (\<open>string\<close>).
  A Go map that the code ranges over is an association list with distinct keys, whose
  order is the order in which that run of the program visits the entries (Go leaves the
  order open, so a statement for every list covers every order). A map that is only
  indexed is a partial function. A panic is the value \<open>Inl Panic\<close>.
  The goroutines of a fan-out are run one after the other, in the order of the container
  list: that is one of the schedules the source allows.
\<close>

subsection \<open>The functions of package strings that the code calls\<close>

text \<open>\<open>strings.Contains(s, sub)\<close>.\<close>

fun Contains :: "string \<Rightarrow> string \<Rightarrow> bool" where
  "Contains [] sub = (sub = [])"
| "Contains (c # cs) sub = (prefix sub (c # cs) \<or> Contains cs sub)"

text \<open>
  \<open>strings.Split(s, sep)\<close>. Every call of the source passes a separator of one byte
  (\<open>","\<close>, \<open>"="\<close>, \<open>"."\<close>, \<open>"_"\<close>, \<open>"/"\<close>), written here as that character.
\<close>

fun Split :: "string \<Rightarrow> char \<Rightarrow> string list" where
  "Split [] sep = [[]]"
| "Split (c # cs) sep =
     (if c = sep then [] # Split cs sep
      else (case Split cs sep of [] \<Rightarrow> [[c]] | p # ps \<Rightarrow> (c # p) # ps))"

text \<open>\<open>strings.SplitN(s, sep, 2)\<close>: cut at the first separator, if there is one.\<close>

definition SplitN2 :: "string \<Rightarrow> char \<Rightarrow> string list" where
  "SplitN2 s sep =
     (if sep \<in> set s
      then [takeWhile (\<lambda>c. c \<noteq> sep) s, tl (dropWhile (\<lambda>c. c \<noteq> sep) s)]
      else [s])"

text \<open>\<open>strings.TrimPrefix(s, p)\<close>.\<close>

definition TrimPrefix :: "string \<Rightarrow> string \<Rightarrow> string" where
  "TrimPrefix s p = (if prefix p s then drop (length p) s else s)"

text \<open>
  \<open>strings.Replace(s, old, new, -1)\<close>: every occurrence of \<open>old\<close>, left to right, without
  overlap. The source passes only the three placeholder tokens as \<open>old\<close>, none of them
  empty; for an empty \<open>old\<close> this function leaves \<open>s\<close> as it is.
\<close>

fun Replace :: "string \<Rightarrow> string \<Rightarrow> string \<Rightarrow> string" where
  "Replace [] old new = []"
| "Replace (c # cs) old new =
     (if old \<noteq> [] \<and> prefix old (c # cs)
      then new @ Replace (drop (length old) (c # cs)) old new
      else c # Replace cs old new)"

text \<open>\<open>fmt.Sprintf("%v", n)\<close> for an unsigned integer: its decimal digits.\<close>

function decimal :: "nat \<Rightarrow> string" where
  "decimal n =
     (if n < 10 then [''0123456789'' ! n]
      else decimal (n div 10) @ [''0123456789'' ! (n mod 10)])"
  by pat_completeness auto
termination
  by (relation "measure (\<lambda>n. n)") auto

declare decimal.simps [simp del]

subsection \<open>Data model\<close>

datatype error = Panic

text \<open>\<open>types.Port\<close>.\<close>

record Port =
  IP :: string
  PrivatePort :: "16 word"
  PublicPort :: "16 word"
  Type :: string

text \<open>
  \<open>types.Container\<close>. \<open>NetworkSettings\<close> is a pointer in Go: \<open>None\<close> is nil, otherwise
  the \<open>Networks\<close> map, each network with its \<open>IPAddress\<close>.
\<close>

record Container =
  ID :: string
  Names :: "string list"
  Image :: string
  Labels :: "(string \<times> string) list"
  Ports :: "Port list"
  NetworkSettings :: "(string \<times> string) list option"

text \<open>\<open>container.Config\<close>: labels, environment and the keys of the exposed-port set.\<close>

record ContainerConfig =
  ConfigLabels :: "(string \<times> string) list"
  Env :: "string list"
  ExposedPorts :: "string list"

text \<open>
  \<open>types.ContainerJSON\<close>: the id, \<open>State.Pid\<close> and the \<open>Config\<close> pointer (\<open>None\<close> is nil).
  The zero value, which a failed inspect leaves behind, has no \<open>Config\<close>. The embedded
  base and its \<open>State\<close> are pointers too; the runtime fills them in every inspection it
  returns without error, and the model takes them as present.
\<close>

record ContainerJSON =
  InspectID :: string
  Pid :: int
  Config :: "ContainerConfig option"

definition zeroContainerJSON :: ContainerJSON where
  "zeroContainerJSON = \<lparr>InspectID = [], Pid = 0, Config = None\<rparr>"

text \<open>\<open>load.Config\<close>: the two fields the package touches; a nil attribute map is \<open>None\<close>.\<close>

record Config =
  FileName :: string
  CustomAttributes :: "(string \<times> string) list option"

text \<open>
  A value decoded by \<open>encoding/json\<close> into \<open>interface{}\<close>. A number carries its literal.
\<close>

datatype jvalue =
    JNull
  | JBool bool
  | JNumber string
  | JString string
  | JArray "jvalue list"
  | JObject "(string \<times> jvalue) list"

text \<open>
  \<open>discoveryConfigs\<close>: \<open>map[string]map[string]interface{}\<close>. The code stores only strings
  in the inner maps, so an inner entry is a string, and \<open>None\<close> is the nil interface.
  Indexing a missing outer key gives Go's nil map, whose every entry is nil.
\<close>

type_synonym fields = "string \<rightharpoonup> string"
type_synonym dconfigs = "string \<rightharpoonup> fields"

definition dc_get :: "dconfigs \<Rightarrow> string \<Rightarrow> string \<Rightarrow> string option" where
  "dc_get dc key f = (case dc key of None \<Rightarrow> None | Some m \<Rightarrow> m f)"

text \<open>\<open>(*discoveryConfigs)[key][f] = v\<close>: an assignment into a nil inner map panics.\<close>

definition dc_set :: "dconfigs \<Rightarrow> string \<Rightarrow> string \<Rightarrow> string \<Rightarrow> error + dconfigs" where
  "dc_set dc key f v =
     (case dc key of None \<Rightarrow> Inl Panic | Some m \<Rightarrow> Inr (dc(key \<mapsto> m(f \<mapsto> v))))"

text \<open>\<open>m[k] = v\<close> on a map that is ranged over: overwrite in place, or a new entry.\<close>

fun map_set :: "(string \<times> string) list \<Rightarrow> string \<Rightarrow> string \<Rightarrow> (string \<times> string) list" where
  "map_set [] k v = [(k, v)]"
| "map_set ((k', v') # m) k v = (if k' = k then (k, v) # m else (k', v') # map_set m k v)"

subsection \<open>parseFlexDiscoveryLabel\<close>

text \<open>
  The loop body of both encodings: a segment that splits into exactly two parts is
  stored, any other segment is skipped.
\<close>

fun storePairs :: "dconfigs \<Rightarrow> string \<Rightarrow> char \<Rightarrow> string list \<Rightarrow> error + dconfigs" where
  "storePairs dc key sep [] = Inr dc"
| "storePairs dc key sep (seg # segs) =
     (case Split seg sep of
        [f, v] \<Rightarrow> (case dc_set dc key f v of
                     Inl e \<Rightarrow> Inl e
                   | Inr dc' \<Rightarrow> storePairs dc' key sep segs)
      | _ \<Rightarrow> storePairs dc key sep segs)"

definition parseFlexDiscoveryLabel :: "dconfigs \<Rightarrow> string \<Rightarrow> string \<Rightarrow> error + dconfigs" where
  "parseFlexDiscoveryLabel dc key val =
     (if Contains val ''=''
      then storePairs dc key (CHR ''='') (Split val (CHR '',''))
      else if Contains val ''.''
      then storePairs dc key (CHR ''_'') (Split val (CHR ''.''))
      else Inr dc)"

subsection \<open>Collaborators outside the package\<close>

text \<open>
  Package \<open>load\<close> (the process-wide values), \<open>formatter.KvFinder\<close>, the docker client,
  the file system, \<open>processor\<close>, the two shell commands and \<open>encoding/json\<close> are not
  part of this package: they are the fields of an environment, and every statement
  below holds for whatever they are.
  \<^item> \<open>setDockerClientOK\<close>: \<open>setDockerClient\<close> returned no error;
  \<^item> \<open>ContainerList\<close>, \<open>ContainerInspect\<close>, \<open>ReadFile\<close>, \<open>ReadYML\<close>, \<open>jsonUnmarshal\<close>:
    \<open>None\<close> is a returned error;
  \<^item> \<open>procNetIPv4 pid\<close>: the trimmed output of the \<open>fib_trie\<close> pipeline of
    \<open>lowLevelIpv4Fetch\<close>, when the command ended without error or timeout and the output
    matched the IPv4 pattern;
  \<^item> \<open>hostnameIPv4 id\<close>: the trimmed output of \<open>hostname -i\<close> run in the container by
    \<open>execContainerCommand\<close>, when it passed the three tests of \<open>execHostnameFallback\<close>;
  \<^item> \<open>renderV\<close>: \<open>fmt.Sprintf("%v", v)\<close> for a decoded JSON value that is not a string;
  \<^item> \<open>LoadConfigFiles files path\<close>: the configurations \<open>processor.LoadConfigFiles\<close> loads.
\<close>

record env =
  ContainerID :: string
  IntegrationName :: string
  IntegrationNameShort :: string
  DefaultIPMode :: string
  OverrideIPMode :: string
  Public :: string
  Private :: string
  Img :: string
  KvFinder :: "string \<Rightarrow> string \<Rightarrow> string \<Rightarrow> bool"
  setDockerClientOK :: bool
  ContainerList :: "Container list option"
  ContainerInspect :: "string \<Rightarrow> ContainerJSON option"
  ReadFile :: "string \<Rightarrow> string option"
  ReadYML :: "string \<Rightarrow> Config option"
  procNetIPv4 :: "int \<Rightarrow> string option"
  hostnameIPv4 :: "string \<Rightarrow> string option"
  jsonUnmarshal :: "string \<Rightarrow> jvalue list option"
  renderV :: "jvalue \<Rightarrow> string"
  LoadConfigFiles :: "string list \<Rightarrow> string \<Rightarrow> Config list"

text \<open>\<open>fmt.Sprintf("%v", v)\<close>: a string prints as itself.\<close>

definition SprintfV :: "env \<Rightarrow> jvalue \<Rightarrow> string" where
  "SprintfV e v = (case v of JString s \<Rightarrow> s | _ \<Rightarrow> renderV e v)"

text \<open>
  \<open>nat.Port.Port()\<close> of docker's go-connections: the part of \<open>"80/tcp"\<close> before the
  first slash.
\<close>

definition natPort :: "string \<Rightarrow> string" where
  "natPort p = (case Split p (CHR ''/'') of [] \<Rightarrow> [] | x # _ \<Rightarrow> x)"

subsection \<open>findContainerTarget\<close>

text \<open>The type assertion \<open>x.(string)\<close>: it panics on the nil interface.\<close>

definition assertString :: "string option \<Rightarrow> error + string" where
  "assertString x = (case x of None \<Rightarrow> Inl Panic | Some s \<Rightarrow> Inr s)"

text \<open>
  Lines 461 to 468: the loop over the labels. Its loop variable is called \<open>key\<close> and
  hides the parameter \<open>key\<close>, so the two lookups in \<open>discoveryConfigs\<close> are made with
  the label's key. \<open>Some found'\<close> is the \<open>return true\<close>, \<open>None\<close> the end of the loop.
\<close>

fun labelFallback ::
  "env \<Rightarrow> dconfigs \<Rightarrow> string \<Rightarrow> string list \<Rightarrow> (string \<times> string) list
     \<Rightarrow> error + string list option" where
  "labelFallback e dc cid found [] = Inr None"
| "labelFallback e dc cid found ((key, val) # ls) =
     (if key = ''io.kubernetes.container.name''
      then (case assertString (dc_get dc key ''tm'') of
              Inl err \<Rightarrow> Inl err
            | Inr tm \<Rightarrow>
               (case assertString (dc_get dc key ''t'') of
                  Inl err \<Rightarrow> Inl err
                | Inr t \<Rightarrow>
                   if KvFinder e tm val t then Inr (Some (found @ [cid]))
                   else labelFallback e dc cid found ls))
      else labelFallback e dc cid found ls)"

text \<open>Lines 454 to 469: the loop over the container's names.\<close>

fun namesLoop ::
  "env \<Rightarrow> dconfigs \<Rightarrow> Container \<Rightarrow> string \<Rightarrow> string list \<Rightarrow> string list
     \<Rightarrow> error + string list option" where
  "namesLoop e dc c key found [] = Inr None"
| "namesLoop e dc c key found (containerName # ns) =
     (case assertString (dc_get dc key ''tm'') of
        Inl err \<Rightarrow> Inl err
      | Inr tm \<Rightarrow>
         (case assertString (dc_get dc key ''t'') of
            Inl err \<Rightarrow> Inl err
          | Inr t \<Rightarrow>
             if KvFinder e tm (TrimPrefix containerName ''/'') t
             then Inr (Some (found @ [ID c]))
             else (case labelFallback e dc (ID c) found (Labels c) of
                     Inl err \<Rightarrow> Inl err
                   | Inr (Some found') \<Rightarrow> Inr (Some found')
                   | Inr None \<Rightarrow> namesLoop e dc c key found ns)))"

text \<open>
  The result is the returned boolean and \<open>*foundTargetContainerIds\<close> after the call.
\<close>

definition findContainerTarget ::
  "env \<Rightarrow> dconfigs \<Rightarrow> Container \<Rightarrow> string \<Rightarrow> string list \<Rightarrow> error + (bool \<times> string list)" where
  "findContainerTarget e dc c key found =
     (if ID c \<in> set found then Inr (False, found)
      else (case dc_get dc key ''tt'' of
              None \<Rightarrow> Inr (False, found)
            | Some tt \<Rightarrow>
               if tt = ''cname''
               then (case namesLoop e dc c key found (Names c) of
                       Inl err \<Rightarrow> Inl err
                     | Inr (Some found') \<Rightarrow> Inr (True, found')
                     | Inr None \<Rightarrow> Inr (False, found))
               else if tt = Img e
               then (case assertString (dc_get dc key ''tm'') of
                       Inl err \<Rightarrow> Inl err
                     | Inr tm \<Rightarrow>
                        (case assertString (dc_get dc key ''t'') of
                           Inl err \<Rightarrow> Inl err
                         | Inr t \<Rightarrow>
                            if KvFinder e tm (Image c) t
                            then Inr (True, found @ [ID c])
                            else Inr (False, found)))
               else Inr (False, found)))"

subsection \<open>addDynamicConfig\<close>

text \<open>The two fallbacks for the address; both act only on an empty address.\<close>

definition lowLevelIpv4Fetch :: "env \<Rightarrow> string \<Rightarrow> int \<Rightarrow> string" where
  "lowLevelIpv4Fetch e discoveryIPAddress pid =
     (if discoveryIPAddress = []
      then (case procNetIPv4 e pid of None \<Rightarrow> discoveryIPAddress | Some ipv4 \<Rightarrow> ipv4)
      else discoveryIPAddress)"

definition execHostnameFallback :: "env \<Rightarrow> string \<Rightarrow> string \<Rightarrow> string" where
  "execHostnameFallback e discoveryIPAddress containerID =
     (if discoveryIPAddress = []
      then (case hostnameIPv4 e containerID of None \<Rightarrow> discoveryIPAddress | Some ipv4 \<Rightarrow> ipv4)
      else discoveryIPAddress)"

text \<open>Lines 313 to 317: the address of the first network; a nil \<open>NetworkSettings\<close> panics.\<close>

definition firstNetworkIP :: "Container \<Rightarrow> error + string" where
  "firstNetworkIP c =
     (case NetworkSettings c of
        None \<Rightarrow> Inl Panic
      | Some [] \<Rightarrow> Inr []
      | Some ((name, ipAddress) # _) \<Rightarrow> Inr ipAddress)"

text \<open>
  Lines 318 to 329: \<open>(discoveryPort, publicIPAddress, publicPort, privatePort)\<close> after the
  port override or, without one, the first port mapping.
\<close>

definition portOverride :: "dconfigs \<Rightarrow> string \<Rightarrow> Container \<Rightarrow> string \<times> string \<times> string \<times> string" where
  "portOverride dc key c =
     (case dc_get dc key ''p'' of
        Some p \<Rightarrow> (p, [], [], [])
      | None \<Rightarrow>
         (case Ports c of
            [] \<Rightarrow> ([], [], [], [])
          | port # _ \<Rightarrow>
             ([], IP port, decimal (unat (PublicPort port)), decimal (unat (PrivatePort port)))))"

text \<open>Lines 331 to 338: the effective IP mode.\<close>

definition ipModeOf :: "env \<Rightarrow> dconfigs \<Rightarrow> string \<Rightarrow> string" where
  "ipModeOf e dc key =
     (if OverrideIPMode e \<noteq> [] \<and> (OverrideIPMode e = Public e \<or> OverrideIPMode e = Private e)
      then OverrideIPMode e
      else (case dc_get dc key ''ip'' of
              None \<Rightarrow> DefaultIPMode e
            | Some ip \<Rightarrow> if ip = Private e \<or> ip = Public e then ip else DefaultIPMode e))"

text \<open>Lines 340 to 347: \<open>(discoveryIPAddress, discoveryPort)\<close> after the switch on the mode.\<close>

definition ipModeSwitch ::
  "env \<Rightarrow> string \<Rightarrow> string \<Rightarrow> string \<times> string \<times> string \<times> string \<Rightarrow> string \<times> string" where
  "ipModeSwitch e ipMode networkIPAddress pp =
     (case pp of (discoveryPort, publicIPAddress, publicPort, privatePort) \<Rightarrow>
        if ipMode = Public e then (publicIPAddress, publicPort)
        else if ipMode = Private e then (networkIPAddress, privatePort)
        else ([], discoveryPort))"

text \<open>
  Lines 370 to 376: the objects of the decoded label, up to the first one with a
  \<open>containerPort\<close>; an element that is not an object panics in its type assertion.
  The result is \<open>(ymlString, discoveryPort)\<close>.
\<close>

fun kubePorts :: "env \<Rightarrow> jvalue list \<Rightarrow> string \<times> string \<Rightarrow> error + string \<times> string" where
  "kubePorts e [] yp = Inr yp"
| "kubePorts e (JObject m # x) yp =
     (case map_of m ''containerPort'' of
        None \<Rightarrow> kubePorts e x yp
      | Some JNull \<Rightarrow> kubePorts e x yp
      | Some v \<Rightarrow> Inr (Replace (fst yp) ''${auto:port}'' (SprintfV e v), SprintfV e v))"
| "kubePorts e (_ # x) yp = Inl Panic"

text \<open>Lines 365 to 379: the loop over the labels of the target container.\<close>

fun kubeLabels ::
  "env \<Rightarrow> (string \<times> string) list \<Rightarrow> string \<times> string \<Rightarrow> error + string \<times> string" where
  "kubeLabels e [] yp = Inr yp"
| "kubeLabels e ((key, val) # ls) yp =
     (if key = ''annotation.io.kubernetes.container.ports''
      then (case jsonUnmarshal e val of
              None \<Rightarrow> kubeLabels e ls yp
            | Some x \<Rightarrow>
               (case kubePorts e x yp of
                  Inl err \<Rightarrow> Inl err
                | Inr yp' \<Rightarrow> kubeLabels e ls yp'))
      else kubeLabels e ls yp)"

text \<open>Lines 380 to 389: the first exposed port of the inspection.\<close>

definition exposedPortFallback :: "ContainerJSON \<Rightarrow> string \<times> string \<Rightarrow> error + string \<times> string" where
  "exposedPortFallback ci yp =
     (if snd yp = []
      then (case Config ci of
              None \<Rightarrow> Inr yp
            | Some cfg \<Rightarrow>
               (case ExposedPorts cfg of
                  [] \<Rightarrow> Inr yp
                | port # _ \<Rightarrow>
                   (case Split (natPort port) (CHR ''/'') of
                      [] \<Rightarrow> Inl Panic
                    | p0 # _ \<Rightarrow> Inr (Replace (fst yp) ''${auto:port}'' p0, p0))))
      else Inr yp)"

text \<open>Lines 354 to 358: the address goes into the text only when it is not empty.\<close>

definition substituteIP :: "string \<Rightarrow> string \<Rightarrow> string" where
  "substituteIP ymlString discoveryIPAddress =
     (if discoveryIPAddress \<noteq> []
      then Replace (Replace ymlString ''${auto:host}'' discoveryIPAddress)
             ''${auto:ip}'' discoveryIPAddress
      else ymlString)"

text \<open>Lines 360 to 390: the port, and its two fallbacks when it is empty.\<close>

definition substitutePort ::
  "env \<Rightarrow> Container \<Rightarrow> ContainerJSON \<Rightarrow> string \<Rightarrow> string \<Rightarrow> error + string \<times> string" where
  "substitutePort e c ci ymlString discoveryPort =
     (if discoveryPort \<noteq> []
      then Inr (Replace ymlString ''${auto:port}'' discoveryPort, discoveryPort)
      else (case kubeLabels e (Labels c) (ymlString, discoveryPort) of
              Inl err \<Rightarrow> Inl err
            | Inr yp \<Rightarrow> exposedPortFallback ci yp))"

text \<open>
  Lines 306 to 390 for one template text: the result is
  \<open>(ymlString, discoveryIPAddress, discoveryPort)\<close> as they stand at line 391.
\<close>

definition resolveCoordinates ::
  "env \<Rightarrow> dconfigs \<Rightarrow> Container \<Rightarrow> ContainerJSON \<Rightarrow> string \<Rightarrow> string
     \<Rightarrow> error + string \<times> string \<times> string" where
  "resolveCoordinates e dc c ci key ymlString =
     (case firstNetworkIP c of
        Inl err \<Rightarrow> Inl err
      | Inr networkIPAddress \<Rightarrow>
         (case ipModeSwitch e (ipModeOf e dc key) networkIPAddress (portOverride dc key c) of
            (ip0, discoveryPort) \<Rightarrow>
              (let discoveryIPAddress =
                     execHostnameFallback e (lowLevelIpv4Fetch e ip0 (Pid ci)) (ID c)
               in case substitutePort e c ci (substituteIP ymlString discoveryIPAddress)
                         discoveryPort of
                    Inl err \<Rightarrow> Inl err
                  | Inr (y, p) \<Rightarrow> Inr (y, discoveryIPAddress, p))))"

text \<open>
  Lines 401 to 409: the attributes. \<open>targetContainer.ID[0:12]\<close> panics when the id has
  fewer than 12 bytes.
\<close>

definition decorate :: "Config \<Rightarrow> Container \<Rightarrow> error + Config" where
  "decorate yml c =
     (let attrs0 = (case CustomAttributes yml of None \<Rightarrow> [] | Some a \<Rightarrow> a);
          attrs1 = foldl (\<lambda>a (key, val). map_set a key val) attrs0 (Labels c);
          attrs2 = map_set (map_set attrs1 ''containerID'' (ID c)) ''image'' (Image c)
      in if length (ID c) < 12 then Inl Panic
         else Inr (yml\<lparr>CustomAttributes := Some (map_set attrs2 ''IDShort'' (take 12 (ID c)))\<rparr>))"

text \<open>Lines 392 to 412: the test for a placeholder left over, the parse, the append.\<close>

definition emitConfig :: "env \<Rightarrow> Container \<Rightarrow> string \<Rightarrow> Config list \<Rightarrow> error + Config list" where
  "emitConfig e c ymlString ymls =
     (if Contains ymlString ''${auto:host}'' \<or> Contains ymlString ''${auto:ip}''
           \<or> Contains ymlString ''${auto:port}''
      then Inr ymls
      else (case ReadYML e ymlString of
              None \<Rightarrow> Inr ymls
            | Some yml \<Rightarrow>
               (case decorate yml c of
                  Inl err \<Rightarrow> Inl err
                | Inr yml' \<Rightarrow> Inr (ymls @ [yml']))))"

text \<open>Lines 293 to 300: the file name the directive asks for.\<close>

definition configNameOf :: "dconfigs \<Rightarrow> string \<Rightarrow> string" where
  "configNameOf dc key = (case dc_get dc key ''c'' of None \<Rightarrow> [] | Some cfg \<Rightarrow> cfg @ ''.yml'')"

text \<open>The body of the loop of \<open>addDynamicConfig\<close> for one loaded configuration.\<close>

definition addDynamicConfigStep ::
  "env \<Rightarrow> dconfigs \<Rightarrow> Container \<Rightarrow> ContainerJSON \<Rightarrow> string \<Rightarrow> string \<Rightarrow> Config
     \<Rightarrow> Config list \<Rightarrow> error + Config list" where
  "addDynamicConfigStep e dc c ci key path containerYml ymls =
     (if FileName containerYml = configNameOf dc key
      then (case ReadFile e (path @ FileName containerYml) of
              None \<Rightarrow> Inr ymls
            | Some b \<Rightarrow>
               (case resolveCoordinates e dc c ci key b of
                  Inl err \<Rightarrow> Inl err
                | Inr (ymlString, ip, port) \<Rightarrow> emitConfig e c ymlString ymls))
      else Inr ymls)"

fun addDynamicConfig ::
  "env \<Rightarrow> Config list \<Rightarrow> dconfigs \<Rightarrow> Config list \<Rightarrow> Container \<Rightarrow> ContainerJSON \<Rightarrow> string
     \<Rightarrow> string \<Rightarrow> error + Config list" where
  "addDynamicConfig e [] dc ymls c ci key path = Inr ymls"
| "addDynamicConfig e (containerYml # rest) dc ymls c ci key path =
     (case addDynamicConfigStep e dc c ci key path containerYml ymls of
        Inl err \<Rightarrow> Inl err
      | Inr ymls' \<Rightarrow> addDynamicConfig e rest dc ymls' c ci key path)"

subsection \<open>The two lookups\<close>

text \<open>
  What the lookups share and change: the inspection cache, the claimed ids and the
  caller's output. \<open>inspectCalls\<close> is not a variable of the source: it records, in order,
  the id of every call of \<open>dockerClient.ContainerInspect\<close>.
\<close>

record pass_state =
  inspectedContainers :: "ContainerJSON list"
  foundTargetContainerIds :: "string list"
  ymls :: "Config list"
  inspectCalls :: "string list"

definition bindE :: "error + 'a \<Rightarrow> ('a \<Rightarrow> error + 'b) \<Rightarrow> error + 'b" where
  "bindE m f = (case m of Inl err \<Rightarrow> Inl err | Inr x \<Rightarrow> f x)"

text \<open>\<open>if discoveryConfigs[key][f] == nil { discoveryConfigs[key][f] = v }\<close>.\<close>

definition setIfNil :: "dconfigs \<Rightarrow> string \<Rightarrow> string \<Rightarrow> string \<Rightarrow> error + dconfigs" where
  "setIfNil dc key f v = (case dc_get dc key f of None \<Rightarrow> dc_set dc key f v | Some _ \<Rightarrow> Inr dc)"

text \<open>The labels, then the \<open>KEY=VALUE\<close> entries of the environment, written into a map.\<close>

definition addLabels :: "(string \<times> string) list \<Rightarrow> (string \<times> string) list \<Rightarrow> (string \<times> string) list" where
  "addLabels m ls = foldl (\<lambda>m (key, val). map_set m key val) m ls"

definition addEnv :: "(string \<times> string) list \<Rightarrow> string list \<Rightarrow> (string \<times> string) list" where
  "addEnv m envs =
     foldl (\<lambda>m envVar. case SplitN2 envVar (CHR ''='') of
                          [k, v] \<Rightarrow> map_set m k v
                        | _ \<Rightarrow> m) m envs"

text \<open>Lines 258 to 269: the defaults of the reverse lookup, under the test for a target.\<close>

definition reverseDefaults :: "env \<Rightarrow> dconfigs \<Rightarrow> string \<Rightarrow> error + dconfigs" where
  "reverseDefaults e dc key =
     (case dc_get dc key ''t'' of
        None \<Rightarrow> Inr dc
      | Some t \<Rightarrow>
         bindE (setIfNil dc key ''c'' t) (\<lambda>dc1.
         bindE (setIfNil dc1 key ''tt'' (Img e)) (\<lambda>dc2.
         setIfNil dc2 key ''tm'' ''contains'')))"

text \<open>
  Lines 252 to 281: one entry of \<open>discoveryLoop\<close> against one container. The inspect and
  the call of \<open>findContainerTarget\<close> come after the block that tests for a target.
\<close>

definition reverseDirective ::
  "env \<Rightarrow> Config list \<Rightarrow> string \<Rightarrow> Container \<Rightarrow> string \<times> string \<Rightarrow> dconfigs \<times> pass_state
     \<Rightarrow> error + dconfigs \<times> pass_state" where
  "reverseDirective e containerYmls path c kv ds =
     (case (kv, ds) of ((key, val), (dc, st)) \<Rightarrow>
        if Contains key ''flexDiscovery''
        then bindE (parseFlexDiscoveryLabel (dc(key \<mapsto> Map.empty)) key val) (\<lambda>dc1.
             bindE (reverseDefaults e dc1 key) (\<lambda>dc2.
               let st1 = st\<lparr>inspectCalls := inspectCalls st @ [ID c]\<rparr>
               in case ContainerInspect e (ID c) of
                    None \<Rightarrow> Inr (dc2, st1)
                  | Some reverseContainerInspect \<Rightarrow>
                     bindE (findContainerTarget e dc2 c key (foundTargetContainerIds st1))
                       (\<lambda>(matched, found').
                          if matched
                          then bindE (addDynamicConfig e containerYmls dc2 (ymls st1) c
                                        reverseContainerInspect key path)
                                 (\<lambda>ymls'. Inr (dc2, st1\<lparr>inspectedContainers :=
                                                   inspectedContainers st1 @ [reverseContainerInspect],
                                                 foundTargetContainerIds := found',
                                                 ymls := ymls'\<rparr>))
                          else Inr (dc2, st1\<lparr>foundTargetContainerIds := found'\<rparr>))))
        else Inr (dc, st))"

fun reverseDirectives ::
  "env \<Rightarrow> Config list \<Rightarrow> string \<Rightarrow> Container \<Rightarrow> (string \<times> string) list
     \<Rightarrow> dconfigs \<times> pass_state \<Rightarrow> error + dconfigs \<times> pass_state" where
  "reverseDirectives e containerYmls path c [] ds = Inr ds"
| "reverseDirectives e containerYmls path c (kv # rest) ds =
     bindE (reverseDirective e containerYmls path c kv ds)
       (reverseDirectives e containerYmls path c rest)"

text \<open>Lines 246 to 285, the tasks one after the other.\<close>

fun reverseContainers ::
  "env \<Rightarrow> Config list \<Rightarrow> string \<Rightarrow> (string \<times> string) list \<Rightarrow> Container list
     \<Rightarrow> dconfigs \<times> pass_state \<Rightarrow> error + dconfigs \<times> pass_state" where
  "reverseContainers e containerYmls path discoveryLoop [] ds = Inr ds"
| "reverseContainers e containerYmls path discoveryLoop (c # cs) ds =
     bindE (if ID c \<noteq> ContainerID e
            then reverseDirectives e containerYmls path c discoveryLoop ds
            else Inr ds)
       (reverseContainers e containerYmls path discoveryLoop cs)"

text \<open>Lines 219 to 240: the inspection of the flex container and its annotations.\<close>

definition flexAnnotations :: "env \<Rightarrow> pass_state \<Rightarrow> (string \<times> string) list \<times> pass_state" where
  "flexAnnotations e st =
     (if ContainerID e \<noteq> []
      then (let st1 = st\<lparr>inspectCalls := inspectCalls st @ [ContainerID e]\<rparr>
            in case ContainerInspect e (ContainerID e) of
                 None \<Rightarrow> ([], st1)
               | Some flexContainerInspect \<Rightarrow>
                  (case Config flexContainerInspect of
                     None \<Rightarrow> ([], st1)
                   | Some cfg \<Rightarrow>
                      (addEnv (addLabels [] (ConfigLabels cfg)) (Env cfg),
                       st1\<lparr>inspectedContainers :=
                             inspectedContainers st1 @ [flexContainerInspect]\<rparr>)))
      else ([], st))"

definition runReverseLookup ::
  "env \<Rightarrow> Container list \<Rightarrow> Config list \<Rightarrow> string \<Rightarrow> pass_state \<Rightarrow> error + pass_state" where
  "runReverseLookup e containers containerYmls path st =
     (case flexAnnotations e st of (discoveryLoop, st1) \<Rightarrow>
        if length discoveryLoop > 0
        then bindE (reverseContainers e containerYmls path discoveryLoop containers
                      (Map.empty, st1))
               (\<lambda>(dc, st2). Inr st2)
        else Inr st1)"

text \<open>Lines 183 to 198: the defaults of the forward lookup.\<close>

definition forwardDefaults :: "env \<Rightarrow> dconfigs \<Rightarrow> string \<Rightarrow> string \<Rightarrow> error + dconfigs" where
  "forwardDefaults e dc key t =
     bindE (setIfNil dc key ''c'' t) (\<lambda>dc1.
     bindE (setIfNil dc1 key ''r'' ''false'') (\<lambda>dc2.
     bindE (setIfNil dc2 key ''tt'' (Img e)) (\<lambda>dc3.
     setIfNil dc3 key ''tm'' ''contains'')))"

text \<open>
  Lines 176 to 204: one entry of \<open>discoveryLoop\<close> of a container. Everything after the
  parse is under the test for a target.
\<close>

definition forwardDirective ::
  "env \<Rightarrow> Config list \<Rightarrow> string \<Rightarrow> Container \<Rightarrow> ContainerJSON \<Rightarrow> string \<times> string
     \<Rightarrow> dconfigs \<times> pass_state \<Rightarrow> error + dconfigs \<times> pass_state" where
  "forwardDirective e containerYmls path c containerInspect kv ds =
     (case (kv, ds) of ((key, val), (dc, st)) \<Rightarrow>
        if Contains key ''flexDiscovery''
        then bindE (parseFlexDiscoveryLabel (dc(key \<mapsto> Map.empty)) key val) (\<lambda>dc1.
               case dc_get dc1 key ''t'' of
                 None \<Rightarrow> Inr (dc1, st)
               | Some t \<Rightarrow>
                  bindE (forwardDefaults e dc1 key t) (\<lambda>dc2.
                  bindE (addDynamicConfig e containerYmls dc2 (ymls st) c containerInspect key path)
                    (\<lambda>ymls'. Inr (dc2, st\<lparr>ymls := ymls'\<rparr>))))
        else Inr (dc, st))"

fun forwardDirectives ::
  "env \<Rightarrow> Config list \<Rightarrow> string \<Rightarrow> Container \<Rightarrow> ContainerJSON \<Rightarrow> (string \<times> string) list
     \<Rightarrow> dconfigs \<times> pass_state \<Rightarrow> error + dconfigs \<times> pass_state" where
  "forwardDirectives e containerYmls path c ci [] ds = Inr ds"
| "forwardDirectives e containerYmls path c ci (kv # rest) ds =
     bindE (forwardDirective e containerYmls path c ci kv ds)
       (forwardDirectives e containerYmls path c ci rest)"

text \<open>
  Lines 140 to 159: the inspection of a container in the forward lookup, from the cache
  when an entry with this id and a \<open>Config\<close> is there, from the runtime otherwise.
\<close>

definition forwardInspect :: "env \<Rightarrow> Container \<Rightarrow> pass_state \<Rightarrow> ContainerJSON \<times> pass_state" where
  "forwardInspect e c st =
     (let cached = (case find (\<lambda>i. InspectID i = ID c) (inspectedContainers st) of
                      None \<Rightarrow> zeroContainerJSON
                    | Some i \<Rightarrow> i)
      in if Config cached = None
         then (let st1 = st\<lparr>inspectCalls := inspectCalls st @ [ID c]\<rparr>
               in case ContainerInspect e (ID c) of
                    None \<Rightarrow> (zeroContainerJSON, st1)
                  | Some i \<Rightarrow> (i, st1\<lparr>inspectedContainers := inspectedContainers st1 @ [i]\<rparr>))
         else (cached, st))"

text \<open>Lines 119 to 207: the task of one container.\<close>

definition forwardContainer ::
  "env \<Rightarrow> Config list \<Rightarrow> string \<Rightarrow> Container \<Rightarrow> dconfigs \<times> pass_state
     \<Rightarrow> error + dconfigs \<times> pass_state" where
  "forwardContainer e containerYmls path c ds =
     (case ds of (dc, st) \<Rightarrow>
        if ContainerID e \<noteq> ID c \<and> ID c \<notin> set (foundTargetContainerIds st)
        then (case forwardInspect e c st of (containerInspect, st1) \<Rightarrow>
                (case Config containerInspect of
                   None \<Rightarrow> Inr (dc, st1)
                 | Some cfg \<Rightarrow>
                    forwardDirectives e containerYmls path c containerInspect
                      (addEnv (addLabels (addLabels [] (Labels c)) (ConfigLabels cfg)) (Env cfg))
                      (dc, st1)))
        else Inr (dc, st))"

fun forwardContainers ::
  "env \<Rightarrow> Config list \<Rightarrow> string \<Rightarrow> Container list \<Rightarrow> dconfigs \<times> pass_state
     \<Rightarrow> error + dconfigs \<times> pass_state" where
  "forwardContainers e containerYmls path [] ds = Inr ds"
| "forwardContainers e containerYmls path (c # cs) ds =
     bindE (forwardContainer e containerYmls path c ds)
       (forwardContainers e containerYmls path cs)"

definition runForwardLookup ::
  "env \<Rightarrow> Container list \<Rightarrow> Config list \<Rightarrow> string \<Rightarrow> pass_state \<Rightarrow> error + pass_state" where
  "runForwardLookup e containers containerYmls path st =
     bindE (forwardContainers e containerYmls path containers (Map.empty, st))
       (\<lambda>(dc, st1). Inr st1)"

subsection \<open>findFlexContainerID\<close>

text \<open>
  Lines 547 to 574: the task of one container, on the value of \<open>load.ContainerID\<close> that
  it finds. The three tests follow each other inside the task.
\<close>

definition flexContainerStep :: "env \<Rightarrow> string \<Rightarrow> Container \<Rightarrow> string" where
  "flexContainerStep e cid c =
     (let cid1 = (if Contains (Image c) (IntegrationName e) \<and> cid = [] then ID c else cid);
          cid2 = (if cid1 = []
                  then foldl (\<lambda>x containerName.
                                if Contains (TrimPrefix containerName ''/'') (IntegrationNameShort e)
                                then ID c else x) cid1 (Names c)
                  else cid1)
      in if cid2 = []
         then foldl (\<lambda>x (key, val).
                       if key = ''io.kubernetes.container.name''
                       then (if Contains val (IntegrationNameShort e) then ID c else x)
                       else x) cid2 (Labels c)
         else cid2)"

text \<open>The value of \<open>load.ContainerID\<close> after the call.\<close>

definition findFlexContainerID :: "env \<Rightarrow> Container list \<Rightarrow> string" where
  "findFlexContainerID e containers =
     (if ContainerID e = [] then foldl (flexContainerStep e) (ContainerID e) containers
      else ContainerID e)"

subsection \<open>Run and CreateDynamicContainerConfigs\<close>

text \<open>\<open>Run\<close>, on the caller's two variables \<open>(containerDiscoveryAvailable, containers)\<close>.\<close>

definition Run :: "env \<Rightarrow> bool \<times> Container list \<Rightarrow> bool \<times> Container list" where
  "Run e out =
     (if \<not> setDockerClientOK e then out
      else (case ContainerList e of
              None \<Rightarrow> out
            | Some containerList \<Rightarrow>
               if length containerList > 0 then (True, containerList) else out))"

text \<open>
  \<open>CreateDynamicContainerConfigs\<close>: the result is \<open>load.ContainerID\<close> and the state after
  the pass, whose \<open>ymls\<close> is the caller's collection.
\<close>

definition CreateDynamicContainerConfigs ::
  "env \<Rightarrow> Container list \<Rightarrow> string list \<Rightarrow> string \<Rightarrow> Config list
     \<Rightarrow> error + string \<times> pass_state" where
  "CreateDynamicContainerConfigs e containers files path ymls0 =
     (let containerYmls = LoadConfigFiles e files path;
          st0 = \<lparr>inspectedContainers = [], foundTargetContainerIds = [], ymls = ymls0,
                 inspectCalls = []\<rparr>
      in if \<not> setDockerClientOK e then Inr (ContainerID e, st0)
         else (let e1 = e\<lparr>ContainerID := findFlexContainerID e containers\<rparr>
               in bindE (runReverseLookup e1 containers containerYmls path st0) (\<lambda>st1.
                  bindE (runForwardLookup e1 containers containerYmls path st1) (\<lambda>st2.
                  Inr (ContainerID e1, st2)))))"

subsection \<open>The three tests of the Self-Identifier, as the specification words them\<close>

text \<open>
  A container answers one of the three steps of the fallback chain: its image contains
  the integration's full name, or one of its names (without the leading slash) contains
  the short name, or its orchestrator container-name label contains the short name.
\<close>

definition selfMatch :: "env \<Rightarrow> Container \<Rightarrow> bool" where
  "selfMatch e c =
     (Contains (Image c) (IntegrationName e)
      \<or> list_ex (\<lambda>containerName.
                    Contains (TrimPrefix containerName ''/'') (IntegrationNameShort e)) (Names c)
      \<or> list_ex (\<lambda>(key, val). key = ''io.kubernetes.container.name''
                    \<and> Contains val (IntegrationNameShort e)) (Labels c))"

section \<open>Concrete inputs\<close>

text \<open>
  One instance of the collaborators, for the evaluations below: the flex container is
  known, the modes are \<open>private\<close> (the default) and \<open>public\<close>, the image marker is \<open>img\<close>,
  \<open>KvFinder\<close> decides the mode \<open>contains\<close> by \<open>strings.Contains\<close> and any other mode by
  equality, and every call of the runtime, of the file system and of a command fails
  unless an input below says otherwise.
\<close>

definition kvSample :: "string \<Rightarrow> string \<Rightarrow> string \<Rightarrow> bool" where
  "kvSample mode k v = (if mode = ''contains'' then Contains k v else k = v)"

definition sampleEnv :: env where
  "sampleEnv = \<lparr>ContainerID = ''f1e0f1e0f1e0f1e0'', IntegrationName = ''com.newrelic.nri-flex'',
     IntegrationNameShort = ''nri-flex'', DefaultIPMode = ''private'', OverrideIPMode = [],
     Public = ''public'', Private = ''private'', Img = ''img'',
     KvFinder = kvSample, setDockerClientOK = True, ContainerList = None,
     ContainerInspect = (\<lambda>id. None), ReadFile = (\<lambda>p. None), ReadYML = (\<lambda>s. None),
     procNetIPv4 = (\<lambda>pid. None), hostnameIPv4 = (\<lambda>id. None),
     jsonUnmarshal = (\<lambda>s. None), renderV = (\<lambda>v. []), LoadConfigFiles = (\<lambda>fs p. [])\<rparr>"

text \<open>
  \<open>discoveryConfigs\<close> with nothing but the empty entry that both lookups create for a
  key just before they parse its value (lines 179 and 254).
\<close>

definition freshDirective :: "string \<Rightarrow> dconfigs" where
  "freshDirective key = [key \<mapsto> Map.empty]"

definition fieldsOf :: "error + dconfigs \<Rightarrow> string \<Rightarrow> string \<Rightarrow> string option" where
  "fieldsOf r key f = (case r of Inl err \<Rightarrow> None | Inr dc \<Rightarrow> dc_get dc key f)"

text \<open>A redis container on the bridge network, without port mapping, exposing 6379.\<close>

definition redisContainer :: Container where
  "redisContainer = \<lparr>ID = ''4c01db0b339c5a1e'', Names = [''/redis''], Image = ''redis:6.2'',
     Labels = [], Ports = [], NetworkSettings = Some [(''bridge'', ''172.17.0.5'')]\<rparr>"

definition redisInspect :: ContainerJSON where
  "redisInspect = \<lparr>InspectID = ''4c01db0b339c5a1e'', Pid = 4321,
     Config = Some \<lparr>ConfigLabels = [], Env = [], ExposedPorts = [''6379/tcp'']\<rparr>\<rparr>"

text \<open>
  The directive \<open>t=redis\<close> after the defaults, and the same directive with the port
  override \<open>p=8080\<close>.
\<close>

definition dcRedis :: dconfigs where
  "dcRedis = [''flexDiscoveryRedis'' \<mapsto>
       [''t'' \<mapsto> ''redis'', ''c'' \<mapsto> ''redis'', ''tt'' \<mapsto> ''img'', ''tm'' \<mapsto> ''contains'']]"

definition dcPort :: dconfigs where
  "dcPort = [''flexDiscoveryRedis'' \<mapsto>
       [''t'' \<mapsto> ''redis'', ''c'' \<mapsto> ''redis'', ''p'' \<mapsto> ''8080'', ''tt'' \<mapsto> ''img'',
        ''tm'' \<mapsto> ''contains'']]"

text \<open>
  A container under an orchestrator, whose ports label holds one object with an empty
  \<open>containerPort\<close>, and a template with the host and the port in it.
\<close>

definition portsLabel :: string where
  \<open>portsLabel = ''[{"containerPort":""}]''\<close>

definition k8sContainer :: Container where
  "k8sContainer = \<lparr>ID = ''9d2f60a7c1b84e35'', Names = [''/k8s_redis_cache-0''],
     Image = ''redis:6.2'',
     Labels = [(''annotation.io.kubernetes.container.ports'', portsLabel)], Ports = [],
     NetworkSettings = Some [(''bridge'', ''172.17.0.5'')]\<rparr>"

definition k8sInspect :: ContainerJSON where
  "k8sInspect = \<lparr>InspectID = ''9d2f60a7c1b84e35'', Pid = 4321,
     Config = Some \<lparr>ConfigLabels = [], Env = [], ExposedPorts = []\<rparr>\<rparr>"

definition redisYml :: Config where
  "redisYml = \<lparr>FileName = ''redis.yml'', CustomAttributes = None\<rparr>"

definition k8sEnv :: env where
  "k8sEnv = sampleEnv\<lparr>
     ReadFile := (\<lambda>p. if p = ''/etc/flex/redis.yml''
                       then Some ''url: http://${auto:host}:${auto:port}/'' else None),
     ReadYML := (\<lambda>s. if s = ''url: http://172.17.0.5:/'' then Some redisYml else None),
     jsonUnmarshal := (\<lambda>s. if s = portsLabel
                            then Some [JObject [(''containerPort'', JString [])]] else None)\<rparr>"

text \<open>The same container with an id of eight bytes.\<close>

definition shortIdContainer :: Container where
  "shortIdContainer = k8sContainer\<lparr>ID := ''9d2f60a7''\<rparr>"

text \<open>
  A directive with target type \<open>cname\<close> and target \<open>cache\<close>, and a container named \<open>web\<close>
  whose orchestrator container-name label is \<open>cache\<close>.
\<close>

definition dcCache :: dconfigs where
  "dcCache = [''flexDiscoveryCache'' \<mapsto>
       [''t'' \<mapsto> ''cache'', ''c'' \<mapsto> ''cache'', ''tt'' \<mapsto> ''cname'', ''tm'' \<mapsto> ''contains'']]"

definition webContainer :: Container where
  "webContainer = \<lparr>ID = ''0a1b2c3d4e5f6071'', Names = [''/web''], Image = ''nginx:1.25'',
     Labels = [(''io.kubernetes.container.name'', ''cache'')], Ports = [],
     NetworkSettings = Some [(''bridge'', ''172.17.0.6'')]\<rparr>"

text \<open>
  The flex container with a given environment, and a runtime that can inspect it and the
  redis container.
\<close>

definition flexInspect :: "string list \<Rightarrow> ContainerJSON" where
  "flexInspect envs = \<lparr>InspectID = ''f1e0f1e0f1e0f1e0'', Pid = 1234,
     Config = Some \<lparr>ConfigLabels = [], Env = envs, ExposedPorts = []\<rparr>\<rparr>"

definition flexEnv :: "string list \<Rightarrow> env" where
  "flexEnv envs = sampleEnv\<lparr>ContainerInspect :=
      (\<lambda>id. if id = ''f1e0f1e0f1e0f1e0'' then Some (flexInspect envs)
             else if id = ''4c01db0b339c5a1e'' then Some redisInspect else None)\<rparr>"

definition emptyState :: pass_state where
  "emptyState = \<lparr>inspectedContainers = [], foundTargetContainerIds = [], ymls = [],
     inspectCalls = []\<rparr>"

text \<open>The inspect calls of a pass, and the ids in its inspection cache at the end.\<close>

definition callsOf :: "error + string \<times> pass_state \<Rightarrow> error + string list \<times> string list" where
  "callsOf r =
     (case r of
        Inl err \<Rightarrow> Inl err
      | Inr (cid, st) \<Rightarrow> Inr (inspectCalls st, map InspectID (inspectedContainers st)))"

text \<open>
  Two containers for the Self-Identifier: the image of the first contains the full name,
  a name of the second contains the short name and its image does not contain the full
  name.
\<close>

definition flexAgent :: Container where
  "flexAgent = \<lparr>ID = ''f1e0f1e0f1e0f1e0'', Names = [''/agent''],
     Image = ''registry/com.newrelic.nri-flex:1.4'', Labels = [], Ports = [],
     NetworkSettings = Some []\<rparr>"

definition sidecar :: Container where
  "sidecar = \<lparr>ID = ''5e6f708192a3b4c5'', Names = [''/nri-flex-sidecar''], Image = ''busybox'',
     Labels = [], Ports = [], NetworkSettings = Some []\<rparr>"

section \<open>Properties\<close>

subsection \<open>Facts about the string functions\<close>

lemma Contains_single: "Contains s [c] = (c \<in> set s)"
  by (induction s) auto

lemma Split_no_sep: "sep \<notin> set s \<Longrightarrow> Split s sep = [s]"
  by (induction s) auto

lemma Split_at_sep: "sep \<notin> set a \<Longrightarrow> Split (a @ sep # b) sep = a # Split b sep"
  by (induction a) auto

lemma storePairs_two:
  assumes "sep \<notin> set f1" "sep \<notin> set v1" "sep \<notin> set f2" "sep \<notin> set v2"
  shows "storePairs (dc(key \<mapsto> m)) key sep [f1 @ sep # v1, f2 @ sep # v2]
           = Inr (dc(key \<mapsto> m(f1 \<mapsto> v1, f2 \<mapsto> v2)))"
  using assms by (simp add: Split_at_sep Split_no_sep dc_set_def)

subsection \<open>The two encodings of a directive\<close>

text \<open>
  Claim C5, as the code has it. The pair-list text \<open>f1=v1,f2=v2\<close> and the dotted text
  \<open>f1_v1.f2_v2\<close> are parsed into the same field map, the one with exactly \<open>f1 \<mapsto> v1\<close> and
  \<open>f2 \<mapsto> v2\<close>, when no name and no value contains one of the four delimiters
  \<open>=\<close>, \<open>,\<close>, \<open>.\<close> and \<open>_\<close>. The map is parsed into the fresh entry that both lookups
  create for the key just before the call.
\<close>

theorem parse_encodings_agree:
  assumes "set (f1 @ v1 @ f2 @ v2) \<inter> {CHR ''='', CHR '','', CHR ''.'', CHR ''_''} = {}"
  shows "parseFlexDiscoveryLabel (dc(key \<mapsto> Map.empty)) key
             (f1 @ ''='' @ v1 @ '','' @ f2 @ ''='' @ v2)
           = Inr (dc(key \<mapsto> [f1 \<mapsto> v1, f2 \<mapsto> v2]))
       \<and> parseFlexDiscoveryLabel (dc(key \<mapsto> Map.empty)) key
             (f1 @ ''_'' @ v1 @ ''.'' @ f2 @ ''_'' @ v2)
           = Inr (dc(key \<mapsto> [f1 \<mapsto> v1, f2 \<mapsto> v2]))"
proof -
  from assms have n:
    "CHR ''='' \<notin> set f1" "CHR ''='' \<notin> set v1" "CHR ''='' \<notin> set f2" "CHR ''='' \<notin> set v2"
    "CHR '','' \<notin> set f1" "CHR '','' \<notin> set v1" "CHR '','' \<notin> set f2" "CHR '','' \<notin> set v2"
    "CHR ''.'' \<notin> set f1" "CHR ''.'' \<notin> set v1" "CHR ''.'' \<notin> set f2" "CHR ''.'' \<notin> set v2"
    "CHR ''_'' \<notin> set f1" "CHR ''_'' \<notin> set v1" "CHR ''_'' \<notin> set f2" "CHR ''_'' \<notin> set v2"
    by auto
  have pairs: "Split (f1 @ ''='' @ v1 @ '','' @ f2 @ ''='' @ v2) (CHR '','')
                 = [f1 @ CHR ''='' # v1, f2 @ CHR ''='' # v2]"
    using n Split_at_sep [of "CHR '',''" "f1 @ ''='' @ v1" "f2 @ ''='' @ v2"]
    by (simp add: Split_no_sep)
  have dotted: "Split (f1 @ ''_'' @ v1 @ ''.'' @ f2 @ ''_'' @ v2) (CHR ''.'')
                  = [f1 @ CHR ''_'' # v1, f2 @ CHR ''_'' # v2]"
    using n Split_at_sep [of "CHR ''.''" "f1 @ ''_'' @ v1" "f2 @ ''_'' @ v2"]
    by (simp add: Split_no_sep)
  have a: "parseFlexDiscoveryLabel (dc(key \<mapsto> Map.empty)) key
             (f1 @ ''='' @ v1 @ '','' @ f2 @ ''='' @ v2)
           = Inr (dc(key \<mapsto> [f1 \<mapsto> v1, f2 \<mapsto> v2]))"
    unfolding parseFlexDiscoveryLabel_def Contains_single pairs
    using n storePairs_two [of "CHR ''=''" f1 v1 f2 v2 dc key Map.empty] by simp
  have b: "parseFlexDiscoveryLabel (dc(key \<mapsto> Map.empty)) key
             (f1 @ ''_'' @ v1 @ ''.'' @ f2 @ ''_'' @ v2)
           = Inr (dc(key \<mapsto> [f1 \<mapsto> v1, f2 \<mapsto> v2]))"
    unfolding parseFlexDiscoveryLabel_def Contains_single dotted
    using n storePairs_two [of "CHR ''_''" f1 v1 f2 v2 dc key Map.empty] by simp
  from a b show ?thesis by simp
qed

theorem parse_encodings_agree_witness:
  "parseFlexDiscoveryLabel [''k'' \<mapsto> Map.empty] ''k'' ''t=redis,tt=img''
     = Inr [''k'' \<mapsto> [''t'' \<mapsto> ''redis'', ''tt'' \<mapsto> ''img'']]
   \<and> parseFlexDiscoveryLabel [''k'' \<mapsto> Map.empty] ''k'' ''t_redis.tt_img''
     = Inr [''k'' \<mapsto> [''t'' \<mapsto> ''redis'', ''tt'' \<mapsto> ''img'']]"
  using parse_encodings_agree [of "''t''" "''redis''" "''tt''" "''img''" Map.empty "''k''"]
  by simp

text \<open>
  The claim as the specification states it, for every name and value, fails: a value
  with a dot in it, here the image \<open>redis:6.2\<close>, is cut at the dot by the dotted encoding,
  which then stores \<open>redis:6\<close> as the target.
\<close>

theorem parse_encodings_differ:
  "fieldsOf (parseFlexDiscoveryLabel (freshDirective ''flexDiscoveryRedis'') ''flexDiscoveryRedis''
       ''t=redis:6.2,tt=img'') ''flexDiscoveryRedis'' ''t'' = Some ''redis:6.2''
   \<and> fieldsOf (parseFlexDiscoveryLabel (freshDirective ''flexDiscoveryRedis'') ''flexDiscoveryRedis''
       ''t_redis:6.2.tt_img'') ''flexDiscoveryRedis'' ''t'' = Some ''redis:6''
   \<and> parseFlexDiscoveryLabel (freshDirective ''flexDiscoveryRedis'') ''flexDiscoveryRedis''
       ''t=redis:6.2,tt=img''
     \<noteq> parseFlexDiscoveryLabel (freshDirective ''flexDiscoveryRedis'') ''flexDiscoveryRedis''
       ''t_redis:6.2.tt_img''"
proof -
  have a: "fieldsOf (parseFlexDiscoveryLabel (freshDirective ''flexDiscoveryRedis'')
       ''flexDiscoveryRedis'' ''t=redis:6.2,tt=img'') ''flexDiscoveryRedis'' ''t''
     = Some ''redis:6.2''"
    by (simp add: parseFlexDiscoveryLabel_def dc_set_def dc_get_def freshDirective_def
          fieldsOf_def)
  have b: "fieldsOf (parseFlexDiscoveryLabel (freshDirective ''flexDiscoveryRedis'')
       ''flexDiscoveryRedis'' ''t_redis:6.2.tt_img'') ''flexDiscoveryRedis'' ''t''
     = Some ''redis:6''"
    by (simp add: parseFlexDiscoveryLabel_def dc_set_def dc_get_def freshDirective_def
          fieldsOf_def)
  have "parseFlexDiscoveryLabel (freshDirective ''flexDiscoveryRedis'') ''flexDiscoveryRedis''
       ''t=redis:6.2,tt=img''
     \<noteq> parseFlexDiscoveryLabel (freshDirective ''flexDiscoveryRedis'') ''flexDiscoveryRedis''
       ''t_redis:6.2.tt_img''"
  proof
    assume "parseFlexDiscoveryLabel (freshDirective ''flexDiscoveryRedis'') ''flexDiscoveryRedis''
       ''t=redis:6.2,tt=img''
     = parseFlexDiscoveryLabel (freshDirective ''flexDiscoveryRedis'') ''flexDiscoveryRedis''
       ''t_redis:6.2.tt_img''"
    with a b have "Some ''redis:6.2'' = Some ''redis:6''" by simp
    then show False by simp
  qed
  with a b show ?thesis by simp
qed

subsection \<open>Facts shared by the evaluations\<close>

lemmas coordinate_defs = resolveCoordinates_def firstNetworkIP_def ipModeSwitch_def ipModeOf_def
  portOverride_def lowLevelIpv4Fetch_def execHostnameFallback_def substituteIP_def
  substitutePort_def exposedPortFallback_def natPort_def SprintfV_def addDynamicConfigStep_def
  configNameOf_def emitConfig_def decorate_def dc_get_def

lemmas pass_defs = CreateDynamicContainerConfigs_def runReverseLookup_def runForwardLookup_def
  flexAnnotations_def findFlexContainerID_def reverseDirective_def reverseDefaults_def
  forwardContainer_def forwardInspect_def forwardDirective_def forwardDefaults_def
  bindE_def setIfNil_def dc_get_def dc_set_def addLabels_def addEnv_def SplitN2_def
  parseFlexDiscoveryLabel_def findContainerTarget_def assertString_def TrimPrefix_def

lemmas input_defs = sampleEnv_def kvSample_def redisContainer_def redisInspect_def dcRedis_def
  dcPort_def portsLabel_def k8sContainer_def k8sInspect_def redisYml_def k8sEnv_def
  shortIdContainer_def dcCache_def webContainer_def flexInspect_def flexEnv_def emptyState_def
  callsOf_def flexAgent_def sidecar_def freshDirective_def fieldsOf_def

lemma map_of_map_set: "map_of (map_set m k v) k = Some v"
  by (induction m) auto

lemma foldl_names: "foldl (\<lambda>x n. if P n then i else x) x ns = (if list_ex P ns then i else x)"
  by (induction ns arbitrary: x) auto

lemma foldl_labels:
  "foldl (\<lambda>x (key, val). if key = k then (if Q val then i else x) else x) x ls
     = (if list_ex (\<lambda>(key, val). key = k \<and> Q val) ls then i else x)"
  by (induction ls arbitrary: x) (auto split: if_splits)

subsection \<open>The port override\<close>

text \<open>
  With a port override and an effective mode that is public or private, the switch on
  the mode puts the public or the private port of the first port mapping into
  \<open>discoveryPort\<close>; the override has skipped the loop that reads the mapping, so both are
  empty and the override is gone.
\<close>

lemma port_override_lost:
  assumes "dc_get dc key ''p'' = Some p"
    and "ipModeOf e dc key = Public e \<or> ipModeOf e dc key = Private e"
  shows "snd (ipModeSwitch e (ipModeOf e dc key) networkIPAddress (portOverride dc key c)) = []"
  using assms by (auto simp: ipModeSwitch_def portOverride_def)

text \<open>
  Claim C1: with the port field \<open>p\<close> set, the port that goes into the template is that
  value, whatever the IP mode and the port mappings. The code does not do this. For the
  directive with \<open>p=8080\<close>, in private and in public mode, on the redis container that
  exposes 6379, the text \<open>port: ${auto:port}\<close> becomes \<open>port: 6379\<close>: the override is
  overwritten by the switch on the mode and the exposed-port fallback fills the port.
\<close>

theorem port_override_overwritten:
  "dc_get dcPort ''flexDiscoveryRedis'' ''p'' = Some ''8080''
   \<and> ipModeOf sampleEnv dcPort ''flexDiscoveryRedis'' = Private sampleEnv
   \<and> resolveCoordinates sampleEnv dcPort redisContainer redisInspect ''flexDiscoveryRedis''
        ''port: ${auto:port}'' = Inr (''port: 6379'', ''172.17.0.5'', ''6379'')
   \<and> ipModeOf (sampleEnv\<lparr>OverrideIPMode := ''public''\<rparr>) dcPort ''flexDiscoveryRedis''
        = Public sampleEnv
   \<and> resolveCoordinates (sampleEnv\<lparr>OverrideIPMode := ''public''\<rparr>) dcPort redisContainer
        redisInspect ''flexDiscoveryRedis'' ''port: ${auto:port}''
        = Inr (''port: 6379'', [], ''6379'')"
  by (simp add: coordinate_defs input_defs)

subsection \<open>A directive without a target\<close>

text \<open>
  In the forward lookup a directive without \<open>t\<close> ends after the parse: nothing but the
  directive map changes, and \<open>addDynamicConfig\<close> is not reached.
\<close>

lemma forward_without_target:
  assumes "parseFlexDiscoveryLabel (dc(key \<mapsto> Map.empty)) key val = Inr dc1"
    and "dc_get dc1 key ''t'' = None"
  shows "forwardDirective e containerYmls path c ci (key, val) (dc, st)
           = Inr (if Contains key ''flexDiscovery'' then dc1 else dc, st)"
  using assms by (simp add: forwardDirective_def bindE_def)

text \<open>
  Claim C2: a directive whose field map has no \<open>t\<close> is discarded before matching, in
  both directions. The reverse lookup does not do this. The annotation
  \<open>flexDiscoveryRedis=tt=img,tm=contains\<close> of the flex container has no target; for the
  redis container the reverse lookup still inspects the container and calls
  \<open>findContainerTarget\<close>, whose image branch asserts that \<open>t\<close> is a string and panics.
\<close>

theorem directive_without_target_reaches_matcher:
  "reverseDirective (flexEnv [''flexDiscoveryRedis=tt=img,tm=contains'']) [] ''/etc/flex/''
      redisContainer (''flexDiscoveryRedis'', ''tt=img,tm=contains'') (Map.empty, emptyState)
   = Inl Panic"
  by (simp add: pass_defs input_defs)

subsection \<open>The Claim Set\<close>

text \<open>
  Claim C3: when the id of a container is among the claimed ids, \<open>findContainerTarget\<close>
  returns false for it, under every directive, and every false return leaves the claimed
  ids as they were.
\<close>

theorem claimed_container_never_matches:
  "(ID c \<in> set found \<longrightarrow> findContainerTarget e dc c key found = Inr (False, found))
   \<and> (findContainerTarget e dc c key found = Inr (False, found') \<longrightarrow> found' = found)"
  by (auto simp: findContainerTarget_def assertString_def split: if_splits sum.splits option.splits)

text \<open>
  The redis container matches the directive \<open>t=redis\<close> while it is unclaimed, and no
  longer once its id is claimed.
\<close>

theorem claimed_container_never_matches_witness:
  "findContainerTarget sampleEnv dcRedis redisContainer ''flexDiscoveryRedis'' []
     = Inr (True, [''4c01db0b339c5a1e''])
   \<and> ID redisContainer \<in> set [''4c01db0b339c5a1e'']
   \<and> findContainerTarget sampleEnv dcRedis redisContainer ''flexDiscoveryRedis''
       [''4c01db0b339c5a1e''] = Inr (False, [''4c01db0b339c5a1e''])"
proof -
  have claimed: "ID redisContainer \<in> set [''4c01db0b339c5a1e'']"
    by (simp add: redisContainer_def)
  have unclaimed: "findContainerTarget sampleEnv dcRedis redisContainer ''flexDiscoveryRedis'' []
      = Inr (True, [''4c01db0b339c5a1e''])"
    by (simp add: pass_defs input_defs)
  from claimed
    claimed_container_never_matches [of redisContainer "[''4c01db0b339c5a1e'']" sampleEnv dcRedis
      "''flexDiscoveryRedis''" "[''4c01db0b339c5a1e'']"]
  have "findContainerTarget sampleEnv dcRedis redisContainer ''flexDiscoveryRedis''
       [''4c01db0b339c5a1e''] = Inr (False, [''4c01db0b339c5a1e''])"
    by blast
  with claimed unclaimed show ?thesis by simp
qed

subsection \<open>Emission\<close>

text \<open>
  A configuration is appended only when the text has none of the three placeholders.
\<close>

lemma emit_needs_no_placeholder:
  assumes "emitConfig e c y ymls0 = Inr ymls1" and "ymls1 \<noteq> ymls0"
  shows "\<not> Contains y ''${auto:host}'' \<and> \<not> Contains y ''${auto:ip}''
         \<and> \<not> Contains y ''${auto:port}''"
  using assms by (auto simp: emitConfig_def split: if_splits)

text \<open>
  The substitution of the address leaves every occurrence of the port placeholder in the
  text: the two address placeholders do not overlap it.
\<close>

lemma Contains_append_right: "Contains b t \<Longrightarrow> Contains (a @ b) t"
  by (induction a) auto

lemma Contains_prefix: "prefix t s \<Longrightarrow> Contains s t"
  by (cases s) auto

lemma Replace_keeps_token:
  assumes "\<And>rest. Contains (old @ rest) tok = Contains rest tok"
    and "\<And>rest. Replace (tok @ rest) old new = tok @ Replace rest old new"
    and "old \<noteq> []"
    and "Contains s tok"
  shows "Contains (Replace s old new) tok"
  using assms
proof (induction s old new rule: Replace.induct)
  case (1 old new)
  from "1.prems"(4) have "tok = []" by simp
  then show ?case by simp
next
  case (2 c cs old new)
  note skip = "2.prems"(1) and keep = "2.prems"(2) and ne = "2.prems"(3) and has = "2.prems"(4)
  show ?case
  proof (cases "prefix old (c # cs)")
    case True
    then obtain rest where split: "c # cs = old @ rest"
      by (auto elim: prefixE)
    from has split skip have "Contains rest tok" by metis
    with split have "Contains (drop (length old) (c # cs)) tok" by simp
    with "2.IH"(1) ne True skip keep
    have "Contains (Replace (drop (length old) (c # cs)) old new) tok" by blast
    then have "Contains (new @ Replace (drop (length old) (c # cs)) old new) tok"
      by (rule Contains_append_right)
    with ne True show ?thesis by simp
  next
    case False
    note np = this
    show ?thesis
    proof (cases "prefix tok (c # cs)")
      case True
      then obtain rest where split: "c # cs = tok @ rest"
        by (auto elim: prefixE)
      have "Contains (tok @ Replace rest old new) tok"
        by (rule Contains_prefix) simp
      with keep [of rest] split show ?thesis by metis
    next
      case False
      with has have "Contains cs tok" by simp
      with "2.IH"(2) np skip keep ne have "Contains (Replace cs old new) tok" by blast
      then have "Contains ([c] @ Replace cs old new) tok"
        by (rule Contains_append_right)
      with np show ?thesis by simp
    qed
  qed
qed

lemma substituteIP_keeps_port_token:
  assumes "Contains ymlString ''${auto:port}''"
  shows "Contains (substituteIP ymlString ip) ''${auto:port}''"
proof -
  have a: "Contains (Replace ymlString ''${auto:host}'' ip) ''${auto:port}''"
    by (rule Replace_keeps_token) (simp_all add: assms)
  have "Contains (Replace (Replace ymlString ''${auto:host}'' ip) ''${auto:ip}'' ip) ''${auto:port}''"
    by (rule Replace_keeps_token) (simp_all add: a)
  with assms show ?thesis by (simp add: substituteIP_def)
qed

text \<open>
  When no source supplies a port (no override that survives the switch on the mode, no
  port mapping, no ports label, no exposed port), a template with the port placeholder
  in it keeps the placeholder, and nothing is appended for it.
\<close>

lemma kubeLabels_without_label:
  "\<not> list_ex (\<lambda>(key, val). key = ''annotation.io.kubernetes.container.ports'') ls
     \<Longrightarrow> kubeLabels e ls yp = Inr yp"
  by (induction ls) auto

lemma no_port_source_no_emission:
  assumes tpl: "ReadFile e (path @ FileName containerYml) = Some b"
      "Contains b ''${auto:port}''"
    and net: "NetworkSettings c \<noteq> None"
    and mapping: "Ports c = []"
    and override: "dc_get dc key ''p'' = None
                   \<or> ipModeOf e dc key = Public e \<or> ipModeOf e dc key = Private e"
    and label: "\<not> list_ex (\<lambda>(key, val). key = ''annotation.io.kubernetes.container.ports'')
                    (Labels c)"
    and exposed: "(case Config ci of None \<Rightarrow> True | Some cfg \<Rightarrow> ExposedPorts cfg = [])"
  shows "addDynamicConfigStep e dc c ci key path containerYml ymls0 = Inr ymls0"
proof (cases "FileName containerYml = configNameOf dc key")
  case False
  then show ?thesis by (simp add: addDynamicConfigStep_def)
next
  case True
  from net have "\<exists>networkIPAddress. firstNetworkIP c = Inr networkIPAddress"
    by (cases "NetworkSettings c") (auto simp: firstNetworkIP_def split: list.splits)
  then obtain networkIPAddress where ip: "firstNetworkIP c = Inr networkIPAddress" ..
  obtain ip0 port0 where sw:
    "ipModeSwitch e (ipModeOf e dc key) networkIPAddress (portOverride dc key c) = (ip0, port0)"
    by (cases "ipModeSwitch e (ipModeOf e dc key) networkIPAddress (portOverride dc key c)")
  from override mapping sw have empty: "port0 = []"
    by (auto simp: ipModeSwitch_def portOverride_def split: option.splits if_splits)
  define address where
    "address = execHostnameFallback e (lowLevelIpv4Fetch e ip0 (Pid ci)) (ID c)"
  define y where "y = substituteIP b address"
  from tpl(2) have token: "Contains y ''${auto:port}''"
    unfolding y_def by (rule substituteIP_keeps_port_token)
  from exposed have fallback: "exposedPortFallback ci (y, []) = Inr (y, [])"
    by (auto simp: exposedPortFallback_def split: option.splits)
  from label fallback have "substitutePort e c ci y [] = Inr (y, [])"
    by (simp add: substitutePort_def kubeLabels_without_label)
  with ip sw empty have "resolveCoordinates e dc c ci key b = Inr (y, address, [])"
    by (simp add: resolveCoordinates_def Let_def y_def address_def)
  with True tpl(1) token show ?thesis
    by (simp add: addDynamicConfigStep_def emitConfig_def)
qed

text \<open>
  Claim C4: nothing is emitted unless every placeholder was substituted; for a template
  with \<open>${auto:port}\<close>, when every port source leaves the port empty, nothing is emitted.
  The second half fails on the code. The ports label of the container holds
  \<open>[{"containerPort":""}]\<close>: the label fallback takes the empty string as the port and
  replaces the placeholder by it, without the test for an empty port that the first
  substitution has. The port is empty at the end, no placeholder is left, and the
  configuration is emitted with the text \<open>url: http://172.17.0.5:/\<close>.
\<close>

theorem empty_port_is_emitted:
  "resolveCoordinates k8sEnv dcRedis k8sContainer k8sInspect ''flexDiscoveryRedis''
       ''url: http://${auto:host}:${auto:port}/''
     = Inr (''url: http://172.17.0.5:/'', ''172.17.0.5'', [])
   \<and> addDynamicConfig k8sEnv [redisYml] dcRedis [] k8sContainer k8sInspect
       ''flexDiscoveryRedis'' ''/etc/flex/''
     = Inr [\<lparr>FileName = ''redis.yml'', CustomAttributes = Some
              [(''annotation.io.kubernetes.container.ports'', portsLabel),
               (''containerID'', ''9d2f60a7c1b84e35''), (''image'', ''redis:6.2''),
               (''IDShort'', ''9d2f60a7c1b8'')]\<rparr>]"
  by (simp add: coordinate_defs input_defs)

subsection \<open>The container-name label\<close>

text \<open>
  The lookups store directives only under keys that contain \<open>flexDiscovery\<close>, so
  \<open>discoveryConfigs\<close> has no entry for the key of the label. Whenever the loop over the
  labels meets the label, it panics.
\<close>

lemma labelFallback_meets_label:
  assumes "dc ''io.kubernetes.container.name'' = None"
    and "(''io.kubernetes.container.name'', val) \<in> set ls"
  shows "labelFallback e dc cid found ls = Inl Panic"
  using assms by (induction ls) (auto simp: dc_get_def assertString_def)

text \<open>
  Claim C6: for a directive with target type \<open>cname\<close> whose target matches no name of the
  candidate, the matcher compares the label \<open>io.kubernetes.container.name\<close> with the
  target under the directive's match mode and, when they match, claims the candidate
  and returns true. The code does not get there. The directive targets \<open>cache\<close>, the
  candidate is named \<open>web\<close> and its label is \<open>cache\<close>: the loop over the labels reads the
  match mode from \<open>discoveryConfigs\<close> under the label's key instead of the directive's
  key, finds nil, and the type assertion panics.
\<close>

theorem label_fallback_panics:
  "findContainerTarget sampleEnv dcCache webContainer ''flexDiscoveryCache'' [] = Inl Panic"
  by (simp add: pass_defs input_defs)

subsection \<open>The inspection cache\<close>

text \<open>
  Claim C7: within one pass a container is inspected at most once, every request for an
  inspection consults the cache first, and no inspect call is made for an id in the
  cache. The reverse lookup does not consult the cache. The flex container carries two
  directives that both target the redis image: the pass inspects the flex container,
  then the redis container for the first directive, which matches and puts the
  inspection into the cache, then the redis container again for the second directive.
  The result is the list of inspect calls and the ids in the cache at the end.
\<close>

theorem reverse_lookup_inspects_again:
  "callsOf (CreateDynamicContainerConfigs
      (flexEnv [''flexDiscoveryRedis=t=redis'', ''flexDiscoveryCache=t=redis,c=cache''])
      [redisContainer] [] ''/etc/flex/'' [])
   = Inr ([''f1e0f1e0f1e0f1e0'', ''4c01db0b339c5a1e'', ''4c01db0b339c5a1e''],
          [''f1e0f1e0f1e0f1e0'', ''4c01db0b339c5a1e''])"
  by (simp add: pass_defs input_defs)

subsection \<open>The Self-Identifier\<close>

lemma flexContainerStep_known: "cid \<noteq> [] \<Longrightarrow> flexContainerStep e cid c = cid"
  by (simp add: flexContainerStep_def Let_def)

lemma flexContainerStep_unknown:
  "flexContainerStep e [] c = (if selfMatch e c then ID c else [])"
  by (auto simp: flexContainerStep_def selfMatch_def Let_def foldl_names foldl_labels)

lemma foldl_step_known: "cid \<noteq> [] \<Longrightarrow> foldl (flexContainerStep e) cid cs = cid"
  by (induction cs) (simp_all add: flexContainerStep_known)

lemma foldl_step_nomatch:
  "\<not> list_ex (selfMatch e) pre \<Longrightarrow> foldl (flexContainerStep e) [] pre = []"
  by (induction pre) (simp_all add: flexContainerStep_unknown)

text \<open>
  Claim C8, as the code has it. When the self id is unknown, it becomes the id of the
  first container, in the order in which the tasks run, that answers any of the three
  steps (image, name or label) and has a non-empty id: each task tries the three steps
  on its own container before the next task runs, so an image match wins over a name
  match of another container only when its task runs first.
\<close>

theorem first_matching_container_is_self:
  assumes "ContainerID e = []" and "\<not> list_ex (selfMatch e) pre" and "selfMatch e c"
    and "ID c \<noteq> []"
  shows "findFlexContainerID e (pre @ c # post) = ID c"
  using assms
  by (simp add: findFlexContainerID_def foldl_step_nomatch flexContainerStep_unknown
        foldl_step_known)

theorem first_matching_container_is_self_witness:
  "findFlexContainerID (sampleEnv\<lparr>ContainerID := []\<rparr>) [redisContainer, flexAgent, sidecar]
     = ''f1e0f1e0f1e0f1e0''"
proof -
  have unknown: "ContainerID (sampleEnv\<lparr>ContainerID := []\<rparr>) = []"
    by simp
  have pre: "\<not> list_ex (selfMatch (sampleEnv\<lparr>ContainerID := []\<rparr>)) [redisContainer]"
    by (simp add: selfMatch_def TrimPrefix_def input_defs)
  have hit: "selfMatch (sampleEnv\<lparr>ContainerID := []\<rparr>) flexAgent"
    by (simp add: selfMatch_def input_defs)
  have id: "ID flexAgent \<noteq> []"
    by (simp add: flexAgent_def)
  from first_matching_container_is_self [OF unknown pre hit id, of "[sidecar]"]
  show ?thesis by (simp add: flexAgent_def)
qed

text \<open>
  The claim as the specification states it fails: with the container whose name
  contains the short name enumerated before the container whose image contains the full
  name, the name match wins.
\<close>

theorem name_match_before_image_match:
  "Contains (Image flexAgent) (IntegrationName sampleEnv)
   \<and> \<not> Contains (Image sidecar) (IntegrationName sampleEnv)
   \<and> Names sidecar = [''/nri-flex-sidecar'']
   \<and> Contains (TrimPrefix ''/nri-flex-sidecar'' ''/'') (IntegrationNameShort sampleEnv)
   \<and> findFlexContainerID (sampleEnv\<lparr>ContainerID := []\<rparr>) [sidecar, flexAgent] = ID sidecar
   \<and> ID sidecar \<noteq> ID flexAgent"
  by (simp add: findFlexContainerID_def flexContainerStep_def TrimPrefix_def input_defs)

subsection \<open>Failures\<close>

text \<open>
  When the client cannot be built or the containers cannot be listed, \<open>Run\<close> leaves both
  variables of the caller as they are; when the client cannot be built,
  \<open>CreateDynamicContainerConfigs\<close> returns with the caller's collection as it was.
\<close>

lemma Run_failure: "\<not> setDockerClientOK e \<or> ContainerList e = None \<Longrightarrow> Run e out = out"
  by (auto simp: Run_def)

lemma Create_without_client:
  "\<not> setDockerClientOK e \<Longrightarrow>
     CreateDynamicContainerConfigs e containers files path ymls0
       = Inr (ContainerID e, \<lparr>inspectedContainers = [], foundTargetContainerIds = [],
                              ymls = ymls0, inspectCalls = []\<rparr>)"
  by (simp add: CreateDynamicContainerConfigs_def)

text \<open>
  Claim C9: a failure to build the client or to list the containers ends the pass
  normally with an empty result, and no failure of a single container or directive
  aborts the pass. The first half holds (the two facts above); the second does not. One
  directive of the flex container without a target,
  \<open>flexDiscoveryRedis=tt=img,tm=contains\<close>, and one other container: the whole pass ends
  in the panic of the type assertion in \<open>findContainerTarget\<close>.
\<close>

theorem malformed_directive_aborts_pass:
  "CreateDynamicContainerConfigs (flexEnv [''flexDiscoveryRedis=tt=img,tm=contains''])
      [redisContainer] [] ''/etc/flex/'' [] = Inl Panic"
  by (simp add: pass_defs input_defs)

subsection \<open>The short id\<close>

text \<open>
  Claim C10: a configuration that was parsed and is decorated gets the bytes 0 to 12 of
  the id of the target container as \<open>IDShort\<close>; when the id has fewer than 12 bytes the
  slice panics and nothing is emitted or skipped. The hypotheses say that the text has
  no placeholder left and parses, which is where the decoration starts.
\<close>

theorem short_id_slice:
  assumes "\<not> Contains y ''${auto:host}''" and "\<not> Contains y ''${auto:ip}''"
    and "\<not> Contains y ''${auto:port}''" and "ReadYML e y = Some yml"
  shows "(length (ID c) < 12 \<longrightarrow> emitConfig e c y ymls0 = Inl Panic)
       \<and> (12 \<le> length (ID c) \<longrightarrow>
            (\<exists>yml' attrs. emitConfig e c y ymls0 = Inr (ymls0 @ [yml'])
               \<and> CustomAttributes yml' = Some attrs
               \<and> map_of attrs ''IDShort'' = Some (take 12 (ID c))))"
  using assms by (auto simp: emitConfig_def decorate_def Let_def map_of_map_set)

theorem short_id_slice_witness:
  "emitConfig k8sEnv shortIdContainer ''url: http://172.17.0.5:/'' [] = Inl Panic
   \<and> (\<exists>yml' attrs. emitConfig k8sEnv k8sContainer ''url: http://172.17.0.5:/'' [] = Inr [yml']
         \<and> CustomAttributes yml' = Some attrs
         \<and> map_of attrs ''IDShort'' = Some ''9d2f60a7c1b8'')"
proof -
  have h: "\<not> Contains ''url: http://172.17.0.5:/'' ''${auto:host}''"
    and i: "\<not> Contains ''url: http://172.17.0.5:/'' ''${auto:ip}''"
    and p: "\<not> Contains ''url: http://172.17.0.5:/'' ''${auto:port}''"
    and r: "ReadYML k8sEnv ''url: http://172.17.0.5:/'' = Some redisYml"
    by (simp_all add: k8sEnv_def sampleEnv_def)
  have short: "length (ID shortIdContainer) < 12"
    and long: "12 \<le> length (ID k8sContainer)" and pre: "take 12 (ID k8sContainer) = ''9d2f60a7c1b8''"
    by (simp_all add: shortIdContainer_def k8sContainer_def)
  from short short_id_slice [OF h i p r, of shortIdContainer "[]"]
  have a: "emitConfig k8sEnv shortIdContainer ''url: http://172.17.0.5:/'' [] = Inl Panic"
    by blast
  from long short_id_slice [OF h i p r, of k8sContainer "[]"]
  have "\<exists>yml' attrs. emitConfig k8sEnv k8sContainer ''url: http://172.17.0.5:/'' [] = Inr ([] @ [yml'])
         \<and> CustomAttributes yml' = Some attrs
         \<and> map_of attrs ''IDShort'' = Some (take 12 (ID k8sContainer))"
    by blast
  with a pre show ?thesis by simp
qed


end
